theory Spec2Isabelle
  imports Main "HOL-Library.Word"
begin

section \<open>Errors\<close>

text \<open>
  The Go code reports failure through \<open>error\<close> values: package-level sentinels created
  with \<open>errors.New\<close>, fresh errors (\<open>errors.New\<close>, \<open>errors.Errorf\<close>) and wrapped errors
  (\<open>errors.Wrap\<close>, \<open>errors.Wrapf\<close>). A nil error is \<open>None\<close>. Format arguments of a
  message are not rendered: a message is its format string.
\<close>

datatype error =
    ErrInvalidTipHeight
  | ErrInvalidBlock
  | ErrPaused
  | filedao_ErrAlreadyExist
  | blockdao_ErrAlreadyExist
  | batch_ErrNotExist
  | batch_ErrAlreadyDeleted
  | batch_ErrOutOfBound
  | db_ErrNotExist
  | New string
  | Wrap error string

text \<open>\<open>errors.Cause\<close> of github.com/pkg/errors: strips every layer of wrapping.\<close>

fun Cause :: "error \<Rightarrow> error" where
  "Cause (Wrap e msg) = Cause e"
| "Cause e = e"

definition Cause_of :: "error option \<Rightarrow> error option" where
  "Cause_of err = map_option Cause err"

section \<open>The buffered key-value store (package db)\<close>

type_synonym bytes = "8 word list"

subsection \<open>The write buffer\<close>

datatype WriteType = batch_Put | batch_Delete

record WriteInfo =
  writeType :: WriteType
  namespace :: string
  key :: bytes
  val :: bytes
  errorMessage :: string

text \<open>
  Modelled from the spec: \<open>batch.CachedBatch\<close>, the write buffer, whose package is not
  among the sources. The spec describes it as an ordered, appendable log of (namespace,
  key, value-or-tombstone) entries in write order, where later entries for the same key
  shadow earlier ones on read. A tombstone carries the nil value, here \<open>[]\<close>.
\<close>

type_synonym CachedBatch = "WriteInfo list"

definition CachedBatch_Put :: "CachedBatch \<Rightarrow> string \<Rightarrow> bytes \<Rightarrow> bytes \<Rightarrow> string \<Rightarrow> CachedBatch" where
  "CachedBatch_Put buf ns k v msg =
     buf @ [\<lparr>writeType = batch_Put, namespace = ns, key = k, val = v, errorMessage = msg\<rparr>]"

definition CachedBatch_Delete :: "CachedBatch \<Rightarrow> string \<Rightarrow> bytes \<Rightarrow> string \<Rightarrow> CachedBatch" where
  "CachedBatch_Delete buf ns k msg =
     buf @ [\<lparr>writeType = batch_Delete, namespace = ns, key = k, val = [], errorMessage = msg\<rparr>]"

text \<open>
  Modelled from the spec: \<open>CachedBatch.Get\<close>. The latest entry written for the key decides:
  a put yields its value, a tombstone the already-deleted error, no entry the
  not-exist error of package batch.
\<close>

definition CachedBatch_latest :: "CachedBatch \<Rightarrow> string \<Rightarrow> bytes \<Rightarrow> WriteInfo option" where
  "CachedBatch_latest buf ns k = find (\<lambda>e. namespace e = ns \<and> key e = k) (rev buf)"

definition CachedBatch_Get :: "CachedBatch \<Rightarrow> string \<Rightarrow> bytes \<Rightarrow> bytes \<times> error option" where
  "CachedBatch_Get buf ns k =
     (case CachedBatch_latest buf ns k of
        None \<Rightarrow> ([], Some batch_ErrNotExist)
      | Some e \<Rightarrow>
          (case writeType e of
             batch_Put \<Rightarrow> (val e, None)
           | batch_Delete \<Rightarrow> ([], Some batch_ErrAlreadyDeleted)))"

text \<open>Modelled from the spec: \<open>CachedBatch.Size\<close>, the number of buffered entries.\<close>

definition CachedBatch_Size :: "CachedBatch \<Rightarrow> nat" where
  "CachedBatch_Size buf = length buf"

text \<open>
  Modelled from the spec: \<open>CachedBatch.Entry\<close>, the \<open>i\<close>-th buffered entry in write
  order, an error when there is none.
\<close>

definition CachedBatch_Entry :: "CachedBatch \<Rightarrow> nat \<Rightarrow> error + WriteInfo" where
  "CachedBatch_Entry buf i = (if i < length buf then Inr (buf ! i) else Inl batch_ErrOutOfBound)"

text \<open>
  Modelled from the spec: \<open>CachedBatch.Lock\<close> and \<open>CachedBatch.ClearAndUnlock\<close>. The
  exclusive hold has no content in a sequential model; clearing empties the log.
\<close>

definition CachedBatch_Lock :: "CachedBatch \<Rightarrow> CachedBatch" where
  "CachedBatch_Lock buf = buf"

definition CachedBatch_ClearAndUnlock :: "CachedBatch \<Rightarrow> CachedBatch" where
  "CachedBatch_ClearAndUnlock buf = []"

subsection \<open>The underlying store\<close>

text \<open>
  \<open>KVStore\<close> is an interface: an implementation is a state of some type \<open>'s\<close> together
  with its methods. Reads return Go's pair of a value and an error; \<open>WriteBatch\<close> returns
  its error and the store it leaves behind, which an implementation is free to have
  changed even when it reports an error.
\<close>

type_synonym Condition = "bytes \<Rightarrow> bytes \<Rightarrow> bool"

record 's KVStore =
  KVStore_Get :: "'s \<Rightarrow> string \<Rightarrow> bytes \<Rightarrow> bytes \<times> error option"
  KVStore_Filter :: "'s \<Rightarrow> string \<Rightarrow> Condition \<Rightarrow> bytes \<Rightarrow> bytes \<Rightarrow> bytes list \<times> bytes list \<times> error option"
  KVStore_WriteBatch :: "'s \<Rightarrow> WriteInfo list \<Rightarrow> error option \<times> 's"

subsection \<open>kvStoreWithBuffer\<close>

record 's kvStoreWithBuffer =
  store :: 's
  buffer :: CachedBatch

definition kvStoreWithBuffer_Get ::
  "'s KVStore \<Rightarrow> 's kvStoreWithBuffer \<Rightarrow> string \<Rightarrow> bytes \<Rightarrow> bytes \<times> error option" where
  "kvStoreWithBuffer_Get K kvb ns k =
     (let (value, err) = CachedBatch_Get (buffer kvb) ns k;
          (value, err) = (if Cause_of err = Some batch_ErrNotExist
                          then KVStore_Get K (store kvb) ns k else (value, err));
          err = (if Cause_of err = Some batch_ErrAlreadyDeleted
                 then Some (Wrap db_ErrNotExist ''failed to get key %x in %s, deleted in buffer level'')
                 else err)
      in (value, err))"

definition kvStoreWithBuffer_MustPut ::
  "'s kvStoreWithBuffer \<Rightarrow> string \<Rightarrow> bytes \<Rightarrow> bytes \<Rightarrow> 's kvStoreWithBuffer" where
  "kvStoreWithBuffer_MustPut kvb ns k v =
     kvb\<lparr>buffer := CachedBatch_Put (buffer kvb) ns k v ''failed to put %x in %s''\<rparr>"

definition kvStoreWithBuffer_Put ::
  "'s kvStoreWithBuffer \<Rightarrow> string \<Rightarrow> bytes \<Rightarrow> bytes \<Rightarrow> error option \<times> 's kvStoreWithBuffer" where
  "kvStoreWithBuffer_Put kvb ns k v =
     (None, kvb\<lparr>buffer := CachedBatch_Put (buffer kvb) ns k v ''failed to put %x in %s''\<rparr>)"

definition kvStoreWithBuffer_MustDelete ::
  "'s kvStoreWithBuffer \<Rightarrow> string \<Rightarrow> bytes \<Rightarrow> 's kvStoreWithBuffer" where
  "kvStoreWithBuffer_MustDelete kvb ns k =
     kvb\<lparr>buffer := CachedBatch_Delete (buffer kvb) ns k ''failed to delete %x in %s''\<rparr>"

definition kvStoreWithBuffer_Delete ::
  "'s kvStoreWithBuffer \<Rightarrow> string \<Rightarrow> bytes \<Rightarrow> error option \<times> 's kvStoreWithBuffer" where
  "kvStoreWithBuffer_Delete kvb ns k =
     (None, kvb\<lparr>buffer := CachedBatch_Delete (buffer kvb) ns k ''failed to delete %x in %s''\<rparr>)"

text \<open>\<open>bytes.Compare\<close> of the Go standard library: lexicographic order on byte strings.\<close>

fun bytes_Compare :: "bytes \<Rightarrow> bytes \<Rightarrow> int" where
  "bytes_Compare [] [] = 0"
| "bytes_Compare [] (y # ys) = - 1"
| "bytes_Compare (x # xs) [] = 1"
| "bytes_Compare (x # xs) (y # ys) =
     (if x < y then - 1 else if y < x then 1 else bytes_Compare xs ys)"

text \<open>
  The inner loop of \<open>Filter\<close>, the same in both branches of the switch:
  \<^verbatim>\<open>for i := range fk { if bytes.Equal(fk[i], k) { fk = append(fk[:i], fk[i+1:]...);
     fv = append(fv[:i], fv[i+1:]...); break } }\<close>
  It cuts the first index holding the key out of both lists. Slicing \<open>fv\<close> at an index it
  does not have is a run-time panic, the result \<open>None\<close>.
\<close>

function removeKey :: "bytes \<Rightarrow> nat \<Rightarrow> bytes list \<Rightarrow> bytes list \<Rightarrow> (bytes list \<times> bytes list) option" where
  "removeKey k i fk fv =
     (if i < length fk then
        (if fk ! i = k then
           (if i < length fv
            then Some (take i fk @ drop (i + 1) fk, take i fv @ drop (i + 1) fv)
            else None)
         else removeKey k (i + 1) fk fv)
      else Some (fk, fv))"
  by pat_completeness auto
termination
  by (relation "measure (\<lambda>(k, i, fk, fv). length fk - i)") auto

declare removeKey.simps [simp del]

text \<open>The body of the loop over the buffer, for one entry.\<close>

definition Filter_entry ::
  "string \<Rightarrow> Condition \<Rightarrow> bytes \<Rightarrow> bytes \<Rightarrow> WriteInfo \<Rightarrow> bytes list \<Rightarrow> bytes list
   \<Rightarrow> (bytes list \<times> bytes list) option" where
  "Filter_entry ns cond minKey maxKey entry fk fv =
     (let checkMin = (length minKey > 0); checkMax = (length maxKey > 0) in
      if namespace entry \<noteq> ns then Some (fk, fv)
      else
        let k = key entry; v = val entry in
        if checkMin \<and> bytes_Compare k minKey = - 1 then Some (fk, fv)
        else if checkMax \<and> bytes_Compare k maxKey = 1 then Some (fk, fv)
        else if cond k v then
          (case writeType entry of
             batch_Put \<Rightarrow>
               (case removeKey k 0 fk fv of
                  None \<Rightarrow> None
                | Some (fk', fv') \<Rightarrow> Some (fk' @ [k], fv' @ [v]))
           | batch_Delete \<Rightarrow> removeKey k 0 fk fv)
        else Some (fk, fv))"

text \<open>
  The loop \<open>for i := 0; i < kvb.buffer.Size(); i++\<close>. The outer \<open>None\<close> is a panic of the
  inner loop; otherwise the three results of \<open>Filter\<close>.
\<close>

function Filter_loop ::
  "CachedBatch \<Rightarrow> string \<Rightarrow> Condition \<Rightarrow> bytes \<Rightarrow> bytes \<Rightarrow> nat \<Rightarrow> bytes list \<Rightarrow> bytes list
   \<Rightarrow> (bytes list \<times> bytes list \<times> error option) option" where
  "Filter_loop buf ns cond minKey maxKey i fk fv =
     (if i < CachedBatch_Size buf then
        (case CachedBatch_Entry buf i of
           Inl err \<Rightarrow> Some ([], [], Some err)
         | Inr entry \<Rightarrow>
             (case Filter_entry ns cond minKey maxKey entry fk fv of
                None \<Rightarrow> None
              | Some (fk', fv') \<Rightarrow> Filter_loop buf ns cond minKey maxKey (i + 1) fk' fv'))
      else Some (fk, fv, None))"
  by pat_completeness auto
termination
  by (relation "measure (\<lambda>(buf, ns, cond, minKey, maxKey, i, fk, fv). CachedBatch_Size buf - i)") auto

declare Filter_loop.simps [simp del]

definition kvStoreWithBuffer_Filter ::
  "'s KVStore \<Rightarrow> 's kvStoreWithBuffer \<Rightarrow> string \<Rightarrow> Condition \<Rightarrow> bytes \<Rightarrow> bytes
   \<Rightarrow> (bytes list \<times> bytes list \<times> error option) option" where
  "kvStoreWithBuffer_Filter K kvb ns cond minKey maxKey =
     (case KVStore_Filter K (store kvb) ns cond minKey maxKey of
        (fk, fv, Some err) \<Rightarrow> Some (fk, fv, Some err)
      | (fk, fv, None) \<Rightarrow> Filter_loop (buffer kvb) ns cond minKey maxKey 0 fk fv)"

subsection \<open>flusher\<close>

text \<open>
  \<open>buffer.Translate(f.flushTranslate)\<close> renders the buffer as the batch handed to the
  store. Neither the sources nor the spec say how; it is the parameter \<open>Translate\<close>, and
  \<open>flushTranslate\<close> is \<open>None\<close> when no option set it.
\<close>

record ('s, 't) flusher =
  kvb :: "'s kvStoreWithBuffer"
  flushTranslate :: "'t option"

definition flusher_Flush ::
  "'s KVStore \<Rightarrow> (CachedBatch \<Rightarrow> 't option \<Rightarrow> WriteInfo list) \<Rightarrow> ('s, 't) flusher
   \<Rightarrow> error option \<times> ('s, 't) flusher" where
  "flusher_Flush K Translate f =
     (case KVStore_WriteBatch K (store (kvb f)) (Translate (buffer (kvb f)) (flushTranslate f)) of
        (Some err, st) \<Rightarrow> (Some err, f\<lparr>kvb := (kvb f)\<lparr>store := st\<rparr>\<rparr>)
      | (None, st) \<Rightarrow>
          (None, f\<lparr>kvb := (kvb f)\<lparr>store := st,
                     buffer := CachedBatch_ClearAndUnlock (CachedBatch_Lock (buffer (kvb f)))\<rparr>\<rparr>))"

section \<open>Blocks\<close>

type_synonym uint64 = "64 word"
type_synonym uint32 = "32 word"

text \<open>
  \<open>hash.Hash256\<close> is a byte string, \<open>time.Time\<close> a number of seconds, \<open>*big.Int\<close> an
  \<open>int option\<close> (\<open>None\<close> is nil), an \<open>address.Address\<close> a string (\<open>None\<close> is nil).
\<close>

type_synonym Hash256 = bytes

record Log =
  log_Address :: string
  log_Topics :: "Hash256 list"
  log_Data :: bytes

record Receipt =
  rcpt_Status :: uint64
  rcpt_Logs :: "Log list"

text \<open>\<open>iotextypes.ReceiptStatus_Success\<close> of the protocol definitions.\<close>

definition ReceiptStatus_Success :: uint64 where
  "ReceiptStatus_Success = 1"

text \<open>
  A block, with what the methods the code calls on it return: \<open>blk_VerifySignature\<close> is
  \<open>blk.Header.VerifySignature()\<close>, \<open>blk_VerifyTxRoot\<close> is \<open>blk.VerifyTxRoot()\<close> and
  \<open>blk_ProducerAddress\<close> is \<open>blk.PublicKey().Address()\<close>.
\<close>

record Block =
  blk_Height :: uint64
  blk_PrevHash :: Hash256
  blk_HashBlock :: Hash256
  blk_Timestamp :: int
  blk_BaseFee :: "int option"
  blk_ExcessBlobGas :: uint64
  blk_BlobGasUsed :: uint64
  blk_GasUsed :: uint64
  blk_VerifySignature :: bool
  blk_VerifyTxRoot :: "error option"
  blk_ProducerAddress :: "string option"
  blk_Receipts :: "Receipt list"

section \<open>The contract staking indexer (package contractstaking)\<close>

text \<open>
  Of \<open>Config\<close> the indexer itself reads the contract address and the deploy height; the two
  function-valued fields are used by the cache only.
\<close>

record contractstaking_Config =
  ContractAddress :: string
  ContractDeployHeight :: uint64

record ('k, 'c) Indexer =
  kvstore :: 'k
  cache :: 'c
  config :: contractstaking_Config
  Readiness :: bool

text \<open>
  The cache, the event handler and the helpers of the package are not among the sources.
  They are parameters: \<open>'c\<close> is a cache, \<open>'h\<close> an event handler, \<open>'dl\<close> a delta, \<open>'b\<close> a
  bucket, \<open>'t\<close> a bucket type, \<open>'a\<close> a candidate address. \<open>Merge\<close> and \<open>LoadFromDB\<close> work in
  place: they return their error and the cache they leave behind, which may be changed
  even when they report an error. The event handler is created from the cache and
  accumulates a delta and a batch of its own; \<open>ActiveBucketTypes\<close> returns a Go map, here
  its entries in the order the \<open>range\<close> loop visits them.
\<close>

record ('k, 'c, 'h, 'dl, 'b, 't, 'a) contractstaking =
  newContractStakingCache :: "contractstaking_Config \<Rightarrow> 'c"
  cache_Height :: "'c \<Rightarrow> uint64"
  cache_Merge :: "'c \<Rightarrow> 'dl \<Rightarrow> uint64 \<Rightarrow> error option \<times> 'c"
  cache_LoadFromDB :: "'c \<Rightarrow> 'k \<Rightarrow> error option \<times> 'c"
  cache_CandidateVotes :: "'c \<Rightarrow> 'a \<Rightarrow> uint64 \<Rightarrow> int \<times> error option"
  cache_Buckets :: "'c \<Rightarrow> uint64 \<Rightarrow> 'b list \<times> error option"
  cache_Bucket :: "'c \<Rightarrow> uint64 \<Rightarrow> uint64 \<Rightarrow> 'b option \<times> bool \<times> error option"
  cache_BucketsByIndices :: "'c \<Rightarrow> uint64 list \<Rightarrow> uint64 \<Rightarrow> 'b list \<times> error option"
  cache_BucketsByCandidate :: "'c \<Rightarrow> 'a \<Rightarrow> uint64 \<Rightarrow> 'b list \<times> error option"
  cache_TotalBucketCount :: "'c \<Rightarrow> uint64 \<Rightarrow> uint64 \<times> error option"
  cache_ActiveBucketTypes :: "'c \<Rightarrow> uint64 \<Rightarrow> (uint64 \<times> 't) list \<times> error option"
  newContractStakingEventHandler :: "'c \<Rightarrow> 'h"
  handler_HandleEvent :: "'h \<Rightarrow> uint64 \<Rightarrow> Log \<Rightarrow> error option \<times> 'h"
  handler_Result :: "'h \<Rightarrow> WriteInfo list \<times> 'dl"
  StakingNS :: string
  stakingHeightKey :: bytes
  Uint64ToBytesBigEndian :: "uint64 \<Rightarrow> bytes"

text \<open>
  Modelled from the spec: \<open>batch.KVStoreBatch.Put\<close>, whose package is not among the
  sources: the batch is an ordered log of writes and \<open>Put\<close> appends one.
\<close>

definition KVStoreBatch_Put :: "WriteInfo list \<Rightarrow> string \<Rightarrow> bytes \<Rightarrow> bytes \<Rightarrow> string \<Rightarrow> WriteInfo list" where
  "KVStoreBatch_Put b ns k v msg =
     b @ [\<lparr>writeType = batch_Put, namespace = ns, key = k, val = v, errorMessage = msg\<rparr>]"

definition isIgnored :: "('k, 'c) Indexer \<Rightarrow> uint64 \<Rightarrow> bool" where
  "isIgnored s height = (height < ContractDeployHeight (config s))"

definition Indexer_CandidateVotes ::
  "('k, 'c, 'h, 'dl, 'b, 't, 'a) contractstaking \<Rightarrow> ('k, 'c) Indexer \<Rightarrow> 'a \<Rightarrow> uint64
   \<Rightarrow> int \<times> error option" where
  "Indexer_CandidateVotes C s candidate height =
     (if isIgnored s height then (0, None)
      else cache_CandidateVotes C (cache s) candidate height)"

definition Indexer_Buckets ::
  "('k, 'c, 'h, 'dl, 'b, 't, 'a) contractstaking \<Rightarrow> ('k, 'c) Indexer \<Rightarrow> uint64
   \<Rightarrow> 'b list \<times> error option" where
  "Indexer_Buckets C s height =
     (if isIgnored s height then ([], None)
      else cache_Buckets C (cache s) height)"

definition Indexer_Bucket ::
  "('k, 'c, 'h, 'dl, 'b, 't, 'a) contractstaking \<Rightarrow> ('k, 'c) Indexer \<Rightarrow> uint64 \<Rightarrow> uint64
   \<Rightarrow> 'b option \<times> bool \<times> error option" where
  "Indexer_Bucket C s bid height =
     (if isIgnored s height then (None, False, None)
      else cache_Bucket C (cache s) bid height)"

definition Indexer_BucketsByIndices ::
  "('k, 'c, 'h, 'dl, 'b, 't, 'a) contractstaking \<Rightarrow> ('k, 'c) Indexer \<Rightarrow> uint64 list \<Rightarrow> uint64
   \<Rightarrow> 'b list \<times> error option" where
  "Indexer_BucketsByIndices C s indices height =
     (if isIgnored s height then ([], None)
      else cache_BucketsByIndices C (cache s) indices height)"

definition Indexer_BucketsByCandidate ::
  "('k, 'c, 'h, 'dl, 'b, 't, 'a) contractstaking \<Rightarrow> ('k, 'c) Indexer \<Rightarrow> 'a \<Rightarrow> uint64
   \<Rightarrow> 'b list \<times> error option" where
  "Indexer_BucketsByCandidate C s candidate height =
     (if isIgnored s height then ([], None)
      else cache_BucketsByCandidate C (cache s) candidate height)"

definition Indexer_TotalBucketCount ::
  "('k, 'c, 'h, 'dl, 'b, 't, 'a) contractstaking \<Rightarrow> ('k, 'c) Indexer \<Rightarrow> uint64
   \<Rightarrow> uint64 \<times> error option" where
  "Indexer_TotalBucketCount C s height =
     (if isIgnored s height then (0, None)
      else cache_TotalBucketCount C (cache s) height)"

definition Indexer_BucketTypes ::
  "('k, 'c, 'h, 'dl, 'b, 't, 'a) contractstaking \<Rightarrow> ('k, 'c) Indexer \<Rightarrow> uint64
   \<Rightarrow> 't list \<times> error option" where
  "Indexer_BucketTypes C s height =
     (if isIgnored s height then ([], None)
      else
        (case cache_ActiveBucketTypes C (cache s) height of
           (btMap, Some err) \<Rightarrow> ([], Some err)
         | (btMap, None) \<Rightarrow> (map snd btMap, None)))"

definition Indexer_loadFromDB ::
  "('k, 'c, 'h, 'dl, 'b, 't, 'a) contractstaking \<Rightarrow> ('k, 'c) Indexer
   \<Rightarrow> error option \<times> ('k, 'c) Indexer" where
  "Indexer_loadFromDB C s =
     (case cache_LoadFromDB C (cache s) (kvstore s) of (err, c) \<Rightarrow> (err, s\<lparr>cache := c\<rparr>))"

definition Indexer_reloadCache ::
  "('k, 'c, 'h, 'dl, 'b, 't, 'a) contractstaking \<Rightarrow> ('k, 'c) Indexer
   \<Rightarrow> error option \<times> ('k, 'c) Indexer" where
  "Indexer_reloadCache C s =
     Indexer_loadFromDB C (s\<lparr>cache := newContractStakingCache C (config s)\<rparr>)"

text \<open>\<open>commit\<close> calls \<open>s.reloadCache()\<close> as a statement: the error it returns is dropped.\<close>

definition Indexer_commit ::
  "('k, 'c, 'h, 'dl, 'b, 't, 'a) contractstaking \<Rightarrow> 'k KVStore \<Rightarrow> ('k, 'c) Indexer \<Rightarrow> 'h \<Rightarrow> uint64
   \<Rightarrow> error option \<times> ('k, 'c) Indexer" where
  "Indexer_commit C K s handler height =
     (case handler_Result C handler of
        (batch, delta) \<Rightarrow>
          (case cache_Merge C (cache s) delta height of
             (Some err, c) \<Rightarrow> (Some err, snd (Indexer_reloadCache C (s\<lparr>cache := c\<rparr>)))
           | (None, c) \<Rightarrow>
               (let batch = KVStoreBatch_Put batch (StakingNS C) (stakingHeightKey C)
                              (Uint64ToBytesBigEndian C height) ''failed to put height''
                in case KVStore_WriteBatch K (kvstore s) batch of
                     (Some err, st) \<Rightarrow>
                       (Some err, snd (Indexer_reloadCache C (s\<lparr>cache := c, kvstore := st\<rparr>)))
                   | (None, st) \<Rightarrow> (None, s\<lparr>cache := c, kvstore := st\<rparr>))))"

text \<open>The loops of \<open>PutBlock\<close> over the logs of a receipt and over the receipts of a block.\<close>

fun handleLogs ::
  "('k, 'c, 'h, 'dl, 'b, 't, 'a) contractstaking \<Rightarrow> string \<Rightarrow> uint64 \<Rightarrow> 'h \<Rightarrow> Log list
   \<Rightarrow> error option \<times> 'h" where
  "handleLogs C addr height handler [] = (None, handler)"
| "handleLogs C addr height handler (lg # logs) =
     (if log_Address lg \<noteq> addr then handleLogs C addr height handler logs
      else
        (case handler_HandleEvent C handler height lg of
           (Some err, handler') \<Rightarrow> (Some err, handler')
         | (None, handler') \<Rightarrow> handleLogs C addr height handler' logs))"

fun handleReceipts ::
  "('k, 'c, 'h, 'dl, 'b, 't, 'a) contractstaking \<Rightarrow> string \<Rightarrow> uint64 \<Rightarrow> 'h \<Rightarrow> Receipt list
   \<Rightarrow> error option \<times> 'h" where
  "handleReceipts C addr height handler [] = (None, handler)"
| "handleReceipts C addr height handler (receipt # receipts) =
     (if rcpt_Status receipt \<noteq> ReceiptStatus_Success
      then handleReceipts C addr height handler receipts
      else
        (case handleLogs C addr height handler (rcpt_Logs receipt) of
           (Some err, handler') \<Rightarrow> (Some err, handler')
         | (None, handler') \<Rightarrow> handleReceipts C addr height handler' receipts))"

text \<open>
  \<open>PutBlock\<close> from the line \<open>handler := newContractStakingEventHandler(s.cache)\<close> on: what
  it does with a block that passed the two height checks.
\<close>

definition Indexer_handleBlock ::
  "('k, 'c, 'h, 'dl, 'b, 't, 'a) contractstaking \<Rightarrow> 'k KVStore \<Rightarrow> ('k, 'c) Indexer \<Rightarrow> Block
   \<Rightarrow> error option \<times> ('k, 'c) Indexer" where
  "Indexer_handleBlock C K s blk =
     (let handler = newContractStakingEventHandler C (cache s) in
      case handleReceipts C (ContractAddress (config s)) (blk_Height blk) handler (blk_Receipts blk) of
        (Some err, handler') \<Rightarrow> (Some err, s)
      | (None, handler') \<Rightarrow> Indexer_commit C K s handler' (blk_Height blk))"

definition Indexer_PutBlock ::
  "('k, 'c, 'h, 'dl, 'b, 't, 'a) contractstaking \<Rightarrow> 'k KVStore \<Rightarrow> ('k, 'c) Indexer \<Rightarrow> Block
   \<Rightarrow> error option \<times> ('k, 'c) Indexer" where
  "Indexer_PutBlock C K s blk =
     (let expectHeight = cache_Height C (cache s) + 1;
          expectHeight = (if expectHeight < ContractDeployHeight (config s)
                          then ContractDeployHeight (config s) else expectHeight)
      in if blk_Height blk < expectHeight then (None, s)
         else if blk_Height blk > expectHeight
           then (Some (New ''invalid block height %d, expect %d''), s)
         else Indexer_handleBlock C K s blk)"

section \<open>The blockchain (package blockchain)\<close>

record TipInfo =
  tip_Height :: uint64
  tip_GasUsed :: uint64
  tip_Hash :: Hash256
  tip_Timestamp :: int
  tip_BaseFee :: "int option"
  tip_BlobGasUsed :: uint64
  tip_ExcessBlobGas :: uint64

record Header =
  hdr_GasUsed :: uint64
  hdr_HashBlock :: Hash256
  hdr_Timestamp :: int
  hdr_BaseFee :: "int option"
  hdr_BlobGasUsed :: uint64
  hdr_ExcessBlobGas :: uint64

text \<open>Of the genesis, what this file reads.\<close>

record Genesis =
  genesis_Hash :: Hash256
  genesis_Timestamp :: int
  BlockGasLimitByHeight :: "uint64 \<Rightarrow> uint64"

record BlockCtx =
  BlockHeight :: uint64
  BlockTimeStamp :: int
  GasLimit :: uint64
  Producer :: "string option"
  BaseFee :: "int option"
  ExcessBlobGas :: uint64
  SkipSidecarValidation :: bool

text \<open>
  A \<open>context.Context\<close> as this file builds it: the blockchain context (without its two
  function fields, which only hand on \<open>dao.GetBlockHash\<close> and \<open>getBlockTime\<close>), the genesis
  and, once \<open>WithBlockCtx\<close> has run, the block context. \<open>WithFeatureCtx\<close> and
  \<open>WithFeatureWithHeightCtx\<close> derive feature flags from what the context already holds;
  they add nothing to it here.
\<close>

record Context =
  ctx_Tip :: TipInfo
  ctx_ChainID :: uint32
  ctx_EvmNetworkID :: uint32
  ctx_Genesis :: Genesis
  ctx_Block :: "BlockCtx option"

record BlockValidationCfg =
  skipSidecarValidation :: bool

definition SkipSidecarValidationOption :: "BlockValidationCfg \<Rightarrow> BlockValidationCfg" where
  "SkipSidecarValidationOption opts = opts\<lparr>skipSidecarValidation := True\<rparr>"

text \<open>
  The collaborators the blockchain is constructed with are interfaces whose
  implementations are not among the sources: the block archive \<open>blockdao.BlockDAO\<close> with
  state \<open>'d\<close>, the \<open>PubSubManager\<close> with state \<open>'p\<close>, and \<open>protocol.VerifyEIP1559Header\<close>.
  \<open>dao_PutBlock\<close> returns its error and the archive it leaves behind.
\<close>

record ('d, 'p) collaborators =
  dao_Height :: "'d \<Rightarrow> error + uint64"
  dao_HeaderByHeight :: "'d \<Rightarrow> uint64 \<Rightarrow> error + Header"
  dao_PutBlock :: "'d \<Rightarrow> Context \<Rightarrow> Block \<Rightarrow> error option \<times> 'd"
  SendBlockToSubscribers :: "'p \<Rightarrow> Block \<Rightarrow> 'p"
  VerifyEIP1559Header :: "Genesis \<Rightarrow> TipInfo \<Rightarrow> Block \<Rightarrow> error option"

text \<open>
  The struct \<open>blockchain\<close>. The mutex, the clock, the timer factory and the metrics have
  no part in what the methods return; \<open>bbf\<close> is used by \<open>MintNewBlock\<close> only.
\<close>

record ('d, 'p) blockchain =
  dao :: 'd
  config_ID :: uint32
  config_EVMNetworkID :: uint32
  genesis :: Genesis
  blockValidator :: "(Context \<Rightarrow> Block \<Rightarrow> error option) option"
  pubSubManager :: "'p option"
  pause :: bool

definition Pause :: "('d, 'p) blockchain \<Rightarrow> bool \<Rightarrow> ('d, 'p) blockchain" where
  "Pause bc p = bc\<lparr>pause := p\<rparr>"

text \<open>\<open>TipHeight\<close> panics when the archive cannot tell its height: the result \<open>Inl\<close>.\<close>

definition TipHeight :: "('d, 'p) collaborators \<Rightarrow> ('d, 'p) blockchain \<Rightarrow> error + uint64" where
  "TipHeight X bc = dao_Height X (dao bc)"

definition tipInfo :: "('d, 'p) collaborators \<Rightarrow> ('d, 'p) blockchain \<Rightarrow> uint64 \<Rightarrow> error + TipInfo" where
  "tipInfo X bc tipHeight =
     (if tipHeight = 0 then
        Inr \<lparr>tip_Height = 0, tip_GasUsed = 0, tip_Hash = genesis_Hash (genesis bc),
             tip_Timestamp = genesis_Timestamp (genesis bc), tip_BaseFee = None,
             tip_BlobGasUsed = 0, tip_ExcessBlobGas = 0\<rparr>
      else
        (case dao_HeaderByHeight X (dao bc) tipHeight of
           Inl err \<Rightarrow> Inl err
         | Inr header \<Rightarrow>
             Inr \<lparr>tip_Height = tipHeight, tip_GasUsed = hdr_GasUsed header,
                  tip_Hash = hdr_HashBlock header, tip_Timestamp = hdr_Timestamp header,
                  tip_BaseFee = hdr_BaseFee header, tip_BlobGasUsed = hdr_BlobGasUsed header,
                  tip_ExcessBlobGas = hdr_ExcessBlobGas header\<rparr>))"

definition "context" :: "('d, 'p) collaborators \<Rightarrow> ('d, 'p) blockchain \<Rightarrow> uint64 \<Rightarrow> error + Context" where
  "context X bc height =
     (case tipInfo X bc height of
        Inl err \<Rightarrow> Inl err
      | Inr tip \<Rightarrow>
          Inr \<lparr>ctx_Tip = tip, ctx_ChainID = config_ID bc, ctx_EvmNetworkID = config_EVMNetworkID bc,
               ctx_Genesis = genesis bc, ctx_Block = None\<rparr>)"


text \<open>
  \<open>ValidateBlock\<close>. A nil block is \<open>None\<close>. The method has a pointer receiver: the second
  component of the result is the blockchain after the call.
\<close>

definition ValidateBlock ::
  "('d, 'p) collaborators \<Rightarrow> ('d, 'p) blockchain \<Rightarrow> Block option
   \<Rightarrow> (BlockValidationCfg \<Rightarrow> BlockValidationCfg) list \<Rightarrow> error option \<times> ('d, 'p) blockchain" where
  "ValidateBlock X bc blk_opt opts =
     (case blk_opt of
        None \<Rightarrow> (Some ErrInvalidBlock, bc)
      | Some blk \<Rightarrow>
     (case dao_Height X (dao bc) of
        Inl err \<Rightarrow> (Some err, bc)
      | Inr tipHeight \<Rightarrow>
     (case tipInfo X bc tipHeight of
        Inl err \<Rightarrow> (Some err, bc)
      | Inr tip \<Rightarrow>
          if blk_Height blk \<noteq> 0 \<and> blk_Height blk \<noteq> tip_Height tip + 1
            then (Some (Wrap ErrInvalidTipHeight ''wrong block height %d, expecting %d''), bc)
          else if blk_PrevHash blk \<noteq> tip_Hash tip
            then (Some (Wrap ErrInvalidBlock ''wrong prev hash %x, expecting %x''), bc)
          else
     (case (if blk_BaseFee blk \<noteq> None then VerifyEIP1559Header X (genesis bc) tip blk else None) of
        Some err \<Rightarrow>
          (Some (Wrap err ''failed to verify EIP1559 header (baseFee adjustment)''), bc)
      | None \<Rightarrow>
          if \<not> blk_VerifySignature blk
            then (Some (New ''failed to verify block's signature with public key: %x''), bc)
          else
     (case blk_VerifyTxRoot blk of
        Some err \<Rightarrow> (Some err, bc)
      | None \<Rightarrow>
     (case blk_ProducerAddress blk of
        None \<Rightarrow> (Some (New ''failed to get address''), bc)
      | Some producerAddr \<Rightarrow>
     (case context X bc tipHeight of
        Inl err \<Rightarrow> (Some err, bc)
      | Inr ctx \<Rightarrow>
          (let cfg = fold (\<lambda>opt c. opt c) opts \<lparr>skipSidecarValidation = False\<rparr>;
               ctx = ctx\<lparr>ctx_Block := Some \<lparr>BlockHeight = blk_Height blk,
                           BlockTimeStamp = blk_Timestamp blk,
                           GasLimit = BlockGasLimitByHeight (genesis bc) (blk_Height blk),
                           Producer = Some producerAddr, BaseFee = blk_BaseFee blk,
                           ExcessBlobGas = blk_ExcessBlobGas blk,
                           SkipSidecarValidation = skipSidecarValidation cfg\<rparr>\<rparr>
           in case blockValidator bc of
                None \<Rightarrow> (None, bc)
              | Some validate \<Rightarrow> (validate ctx blk, bc)))))))))"




section \<open>What the claims speak of\<close>

text \<open>
  The height the spec says \<open>PutBlock\<close> expects: the cache height plus one, floored at the
  start height. The sum is the code's, on 64 bits.
\<close>

definition spec_expectHeight ::
  "('k, 'c, 'h, 'dl, 'b, 't, 'a) contractstaking \<Rightarrow> ('k, 'c) Indexer \<Rightarrow> uint64" where
  "spec_expectHeight C s = max (cache_Height C (cache s) + 1) (ContractDeployHeight (config s))"

section \<open>Concrete collaborators\<close>

text \<open>
  Small implementations of the interfaces, on which the theorems below are exercised: a
  key-value store held in memory as a list of entries, and the same store with a
  \<open>WriteBatch\<close> that fails.
\<close>

type_synonym memStore = "((string \<times> bytes) \<times> bytes) list"

definition mem_within :: "bytes \<Rightarrow> bytes \<Rightarrow> bytes \<Rightarrow> bool" where
  "mem_within minKey maxKey k =
     ((if minKey = [] then True else bytes_Compare k minKey \<noteq> - 1)
      \<and> (if maxKey = [] then True else bytes_Compare k maxKey \<noteq> 1))"

definition mem_write :: "WriteInfo \<Rightarrow> memStore \<Rightarrow> memStore" where
  "mem_write e st =
     (case writeType e of
        batch_Put \<Rightarrow> filter (\<lambda>p. fst p \<noteq> (namespace e, key e)) st @ [((namespace e, key e), val e)]
      | batch_Delete \<Rightarrow> filter (\<lambda>p. fst p \<noteq> (namespace e, key e)) st)"

definition memKV :: "memStore KVStore" where
  "memKV =
     \<lparr>KVStore_Get = (\<lambda>st ns k. case map_of st (ns, k) of
                                  None \<Rightarrow> ([], Some db_ErrNotExist)
                                | Some v \<Rightarrow> (v, None)),
      KVStore_Filter = (\<lambda>st ns cond minKey maxKey.
         let hits = filter (\<lambda>p. fst (fst p) = ns \<and> cond (snd (fst p)) (snd p)
                                 \<and> mem_within minKey maxKey (snd (fst p))) st
         in (map (\<lambda>p. snd (fst p)) hits, map snd hits, None)),
      KVStore_WriteBatch = (\<lambda>st b. (None, fold mem_write b st))\<rparr>"

definition brokenKV :: "memStore KVStore" where
  "brokenKV = memKV\<lparr>KVStore_WriteBatch := (\<lambda>st b. (Some (New ''write failed''), st))\<rparr>"

text \<open>A translation for \<open>Flush\<close>: the buffer as it is, or mapped through the function given.\<close>

definition Translate_id :: "CachedBatch \<Rightarrow> (WriteInfo \<Rightarrow> WriteInfo) option \<Rightarrow> WriteInfo list" where
  "Translate_id buf wit = (case wit of None \<Rightarrow> buf | Some f \<Rightarrow> map f buf)"

text \<open>
  A cache that is a height and a list of bucket ids, a handler that collects the ids it
  is shown, and a variant whose \<open>Merge\<close> fails after it has changed the cache.
\<close>

type_synonym toyCache = "uint64 \<times> nat list"

definition toyStaking :: "(memStore, toyCache, nat list, nat list, nat, nat, string) contractstaking" where
  "toyStaking =
     \<lparr>newContractStakingCache = (\<lambda>cfg. (0, [])),
      cache_Height = fst,
      cache_Merge = (\<lambda>c delta height. (None, (height, snd c @ delta))),
      cache_LoadFromDB = (\<lambda>c st. (None, (of_nat (length st), map (\<lambda>p. length (snd p)) st))),
      cache_CandidateVotes = (\<lambda>c cand height. (int (length (snd c)), None)),
      cache_Buckets = (\<lambda>c height. (snd c, None)),
      cache_Bucket = (\<lambda>c bid height. (Some (unat bid), True, None)),
      cache_BucketsByIndices = (\<lambda>c indices height. (map unat indices, None)),
      cache_BucketsByCandidate = (\<lambda>c cand height. (snd c, None)),
      cache_TotalBucketCount = (\<lambda>c height. (of_nat (length (snd c)), None)),
      cache_ActiveBucketTypes = (\<lambda>c height. ([(1, 7)], None)),
      newContractStakingEventHandler = (\<lambda>c. []),
      handler_HandleEvent = (\<lambda>h height lg. (None, h @ [length (log_Data lg)])),
      handler_Result = (\<lambda>h. ([], h)),
      StakingNS = ''sns'',
      stakingHeightKey = [1],
      Uint64ToBytesBigEndian = (\<lambda>h. [ucast h])\<rparr>"


definition toyIndexer :: "(memStore, toyCache) Indexer" where
  "toyIndexer =
     \<lparr>kvstore = [], cache = (5, [3]),
      config = \<lparr>ContractAddress = ''io1stake'', ContractDeployHeight = 100\<rparr>,
      Readiness = True\<rparr>"

definition toyBlock :: "uint64 \<Rightarrow> Block" where
  "toyBlock h =
     \<lparr>blk_Height = h, blk_PrevHash = [0], blk_HashBlock = [ucast h], blk_Timestamp = 0,
      blk_BaseFee = None, blk_ExcessBlobGas = 0, blk_BlobGasUsed = 0, blk_GasUsed = 0,
      blk_VerifySignature = True, blk_VerifyTxRoot = None, blk_ProducerAddress = Some ''io1producer'',
      blk_Receipts = [\<lparr>rcpt_Status = 1,
                       rcpt_Logs = [\<lparr>log_Address = ''io1stake'', log_Topics = [], log_Data = [1, 2]\<rparr>]\<rparr>]\<rparr>"

text \<open>
  An archive that is the list of the blocks it holds, refusing a block at a height it
  already has; the same archive with a write that fails; and a pub-sub manager that is
  the list of its subscribers, each with the blocks it has been sent.
\<close>

definition toyHeader :: "Block \<Rightarrow> Header" where
  "toyHeader b =
     \<lparr>hdr_GasUsed = blk_GasUsed b, hdr_HashBlock = blk_HashBlock b, hdr_Timestamp = blk_Timestamp b,
      hdr_BaseFee = blk_BaseFee b, hdr_BlobGasUsed = blk_BlobGasUsed b,
      hdr_ExcessBlobGas = blk_ExcessBlobGas b\<rparr>"

type_synonym toyPubSub = "(string \<times> Block list) list"

definition toyChain :: "(Block list, toyPubSub) collaborators" where
  "toyChain =
     \<lparr>dao_Height = (\<lambda>d. Inr (of_nat (length d))),
      dao_HeaderByHeight = (\<lambda>d h. if 0 < unat h \<and> unat h \<le> length d
                                   then Inr (toyHeader (d ! (unat h - 1))) else Inl db_ErrNotExist),
      dao_PutBlock = (\<lambda>d ctx b. if unat (blk_Height b) \<le> length d
                                 then (Some (Wrap blockdao_ErrAlreadyExist ''block exists''), d)
                                 else (None, d @ [b])),
      SendBlockToSubscribers = (\<lambda>ps b. map (\<lambda>sub. (fst sub, snd sub @ [b])) ps),
      VerifyEIP1559Header = (\<lambda>g tip b. None)\<rparr>"

definition toyChain_failPut :: "(Block list, toyPubSub) collaborators" where
  "toyChain_failPut = toyChain\<lparr>dao_PutBlock := (\<lambda>d ctx b. (Some (New ''disk full''), d))\<rparr>"

definition toyBlockchain :: "(Block list, toyPubSub) blockchain" where
  "toyBlockchain =
     \<lparr>dao = [], config_ID = 1, config_EVMNetworkID = 4689,
      genesis = \<lparr>genesis_Hash = [0], genesis_Timestamp = 0, BlockGasLimitByHeight = (\<lambda>h. 0)\<rparr>,
      blockValidator = None, pubSubManager = Some [(''indexer'', []), (''api'', [])],
      pause = False\<rparr>"

text \<open>
  A store with two entries behind a buffer that puts a third key and deletes one of the
  two, and a flusher on it.
\<close>

definition ex_store :: memStore where
  "ex_store = [((''ns'', [2]), [20]), ((''ns'', [3]), [30])]"

definition ex_kvb :: "memStore kvStoreWithBuffer" where
  "ex_kvb =
     \<lparr>store = ex_store,
      buffer = [\<lparr>writeType = batch_Put, namespace = ''ns'', key = [1], val = [10],
                 errorMessage = ''put''\<rparr>,
                \<lparr>writeType = batch_Delete, namespace = ''ns'', key = [2], val = [],
                 errorMessage = ''delete''\<rparr>]\<rparr>"

definition ex_flusher :: "(memStore, WriteInfo \<Rightarrow> WriteInfo) flusher" where
  "ex_flusher = \<lparr>kvb = ex_kvb, flushTranslate = None\<rparr>"

text \<open>
  A store that holds one key, wrapped with an empty buffer, after \<open>Delete\<close> of that key;
  and two predicates for \<open>Filter\<close>: one that wants a non-empty value, one that accepts
  everything.
\<close>

definition ex_deleted_kvb :: "memStore kvStoreWithBuffer" where
  "ex_deleted_kvb =
     snd (kvStoreWithBuffer_Delete \<lparr>store = [((''ns'', [1]), [10])], buffer = []\<rparr> ''ns'' [1])"

definition ex_nonempty_value :: Condition where
  "ex_nonempty_value k v = (0 < length v)"

definition ex_any_value :: Condition where
  "ex_any_value k v = True"


text \<open>
  The blockchain above after block 1 has been committed: the archive holds the block and
  each subscriber has received it once. \<open>ex_genesis_ctx\<close> and \<open>ex_tip_ctx\<close> are the contexts
  \<open>commitBlock\<close> derives, before it adds the block context, on the empty chain and on the
  chain that holds block 1.
\<close>

definition ex_committed :: "(Block list, toyPubSub) blockchain" where
  "ex_committed =
     toyBlockchain\<lparr>dao := [toyBlock 1],
                    pubSubManager := Some [(''indexer'', [toyBlock 1]), (''api'', [toyBlock 1])]\<rparr>"

definition ex_genesis_tip :: TipInfo where
  "ex_genesis_tip =
     \<lparr>tip_Height = 0, tip_GasUsed = 0, tip_Hash = [0], tip_Timestamp = 0, tip_BaseFee = None,
      tip_BlobGasUsed = 0, tip_ExcessBlobGas = 0\<rparr>"

definition ex_genesis_ctx :: Context where
  "ex_genesis_ctx =
     \<lparr>ctx_Tip = ex_genesis_tip, ctx_ChainID = 1, ctx_EvmNetworkID = 4689,
      ctx_Genesis = genesis toyBlockchain, ctx_Block = None\<rparr>"

definition ex_tip_ctx :: Context where
  "ex_tip_ctx =
     \<lparr>ctx_Tip = \<lparr>tip_Height = 1, tip_GasUsed = 0, tip_Hash = [1], tip_Timestamp = 0,
                 tip_BaseFee = None, tip_BlobGasUsed = 0, tip_ExcessBlobGas = 0\<rparr>,
      ctx_ChainID = 1, ctx_EvmNetworkID = 4689,
      ctx_Genesis = genesis toyBlockchain, ctx_Block = None\<rparr>"

section \<open>The buffered store: proofs\<close>

lemma Get_latest_Put:
  "CachedBatch_latest (buffer w) ns k = Some e \<Longrightarrow> writeType e = batch_Put \<Longrightarrow>
   kvStoreWithBuffer_Get K w ns k = (val e, None)"
  by (simp add: kvStoreWithBuffer_Get_def CachedBatch_Get_def Cause_of_def)

lemma Get_latest_Delete:
  "CachedBatch_latest (buffer w) ns k = Some e \<Longrightarrow> writeType e = batch_Delete \<Longrightarrow>
   kvStoreWithBuffer_Get K w ns k =
     ([], Some (Wrap db_ErrNotExist ''failed to get key %x in %s, deleted in buffer level''))"
  by (simp add: kvStoreWithBuffer_Get_def CachedBatch_Get_def Cause_of_def)

lemma Get_latest_None:
  "CachedBatch_latest (buffer w) ns k = None \<Longrightarrow>
   kvStoreWithBuffer_Get K w ns k =
     (fst (KVStore_Get K (store w) ns k),
      if Cause_of (snd (KVStore_Get K (store w) ns k)) = Some batch_ErrAlreadyDeleted
      then Some (Wrap db_ErrNotExist ''failed to get key %x in %s, deleted in buffer level'')
      else snd (KVStore_Get K (store w) ns k))"
  by (auto simp: kvStoreWithBuffer_Get_def CachedBatch_Get_def Cause_of_def split: prod.splits)

lemma latest_Put:
  "CachedBatch_latest (CachedBatch_Put buf ns k v msg) ns k =
     Some \<lparr>writeType = batch_Put, namespace = ns, key = k, val = v, errorMessage = msg\<rparr>"
  by (simp add: CachedBatch_latest_def CachedBatch_Put_def)

lemma latest_Delete:
  "CachedBatch_latest (CachedBatch_Delete buf ns k msg) ns k =
     Some \<lparr>writeType = batch_Delete, namespace = ns, key = k, val = [], errorMessage = msg\<rparr>"
  by (simp add: CachedBatch_latest_def CachedBatch_Delete_def)

text \<open>
  Claim C5. A \<open>Get\<close> on the buffered store sees the buffer before the store. After
  \<open>Put(ns, k, v)\<close> a \<open>Get(ns, k)\<close> returns \<open>v\<close> with no flush in between, whatever the
  store holds; after \<open>Delete(ns, k)\<close> it returns the not-found error, whatever the store
  holds. In general the latest buffer entry for the key decides: a put yields its value,
  a delete the not-found error \<open>db.ErrNotExist\<close> (wrapped), and only when the buffer has no
  entry for the key is the answer the underlying store's (whose already-deleted error, if
  it reports one, is turned into not-found as well).
\<close>

theorem Get_reads_through_buffer:
  "kvStoreWithBuffer_Get K (snd (kvStoreWithBuffer_Put w ns k v)) ns k = (v, None)
   \<and> kvStoreWithBuffer_Get K (snd (kvStoreWithBuffer_Delete w ns k)) ns k =
       ([], Some (Wrap db_ErrNotExist ''failed to get key %x in %s, deleted in buffer level''))
   \<and> (\<forall>e. CachedBatch_latest (buffer w) ns k = Some e \<and> writeType e = batch_Put \<longrightarrow>
          kvStoreWithBuffer_Get K w ns k = (val e, None))
   \<and> (\<forall>e. CachedBatch_latest (buffer w) ns k = Some e \<and> writeType e = batch_Delete \<longrightarrow>
          kvStoreWithBuffer_Get K w ns k =
            ([], Some (Wrap db_ErrNotExist ''failed to get key %x in %s, deleted in buffer level'')))
   \<and> (CachedBatch_latest (buffer w) ns k = None \<longrightarrow>
          kvStoreWithBuffer_Get K w ns k =
            (fst (KVStore_Get K (store w) ns k),
             if Cause_of (snd (KVStore_Get K (store w) ns k)) = Some batch_ErrAlreadyDeleted
             then Some (Wrap db_ErrNotExist ''failed to get key %x in %s, deleted in buffer level'')
             else snd (KVStore_Get K (store w) ns k)))"
proof -
  have "kvStoreWithBuffer_Get K (snd (kvStoreWithBuffer_Put w ns k v)) ns k = (v, None)"
    using Get_latest_Put [of "snd (kvStoreWithBuffer_Put w ns k v)" ns k _ K]
    by (simp add: kvStoreWithBuffer_Put_def latest_Put)
  moreover have "kvStoreWithBuffer_Get K (snd (kvStoreWithBuffer_Delete w ns k)) ns k =
       ([], Some (Wrap db_ErrNotExist ''failed to get key %x in %s, deleted in buffer level''))"
    using Get_latest_Delete [of "snd (kvStoreWithBuffer_Delete w ns k)" ns k _ K]
    by (simp add: kvStoreWithBuffer_Delete_def latest_Delete)
  ultimately show ?thesis
    using Get_latest_Put [of w ns k _ K] Get_latest_Delete [of w ns k _ K]
      Get_latest_None [of w ns k K]
    by blast
qed

theorem Get_reads_through_buffer_witness:
  "CachedBatch_latest (buffer ex_kvb) ''ns'' [1] =
     Some \<lparr>writeType = batch_Put, namespace = ''ns'', key = [1], val = [10], errorMessage = ''put''\<rparr>
   \<and> kvStoreWithBuffer_Get memKV ex_kvb ''ns'' [1] = ([10], None)
   \<and> CachedBatch_latest (buffer ex_kvb) ''ns'' [2] =
     Some \<lparr>writeType = batch_Delete, namespace = ''ns'', key = [2], val = [], errorMessage = ''delete''\<rparr>
   \<and> KVStore_Get memKV (store ex_kvb) ''ns'' [2] = ([20], None)
   \<and> kvStoreWithBuffer_Get memKV ex_kvb ''ns'' [2] =
       ([], Some (Wrap db_ErrNotExist ''failed to get key %x in %s, deleted in buffer level''))
   \<and> CachedBatch_latest (buffer ex_kvb) ''ns'' [3] = None
   \<and> kvStoreWithBuffer_Get memKV ex_kvb ''ns'' [3] = ([30], None)"
proof -
  have l1: "CachedBatch_latest (buffer ex_kvb) ''ns'' [1] =
     Some \<lparr>writeType = batch_Put, namespace = ''ns'', key = [1], val = [10], errorMessage = ''put''\<rparr>"
    by (simp add: CachedBatch_latest_def ex_kvb_def)
  have l2: "CachedBatch_latest (buffer ex_kvb) ''ns'' [2] =
     Some \<lparr>writeType = batch_Delete, namespace = ''ns'', key = [2], val = [], errorMessage = ''delete''\<rparr>"
    by (simp add: CachedBatch_latest_def ex_kvb_def)
  have l3: "CachedBatch_latest (buffer ex_kvb) ''ns'' [3] = None"
    by (simp add: CachedBatch_latest_def ex_kvb_def)
  have g2: "KVStore_Get memKV (store ex_kvb) ''ns'' [2] = ([20], None)"
    by (simp add: memKV_def ex_kvb_def ex_store_def)
  have g3: "KVStore_Get memKV (store ex_kvb) ''ns'' [3] = ([30], None)"
    by (simp add: memKV_def ex_kvb_def ex_store_def)
  show ?thesis
    using Get_reads_through_buffer [of memKV ex_kvb "''ns''" "[1]" "[]"]
      Get_reads_through_buffer [of memKV ex_kvb "''ns''" "[2]" "[]"]
      Get_reads_through_buffer [of memKV ex_kvb "''ns''" "[3]" "[]"]
    by (simp add: l1 l2 l3 g2 g3 Cause_of_def)
qed

text \<open>
  Claim C6. The claim has \<open>Filter\<close> merge the buffer into the store's hits, a buffered
  \<open>Delete\<close> removing the store's hit for the same key. \<open>Filter\<close> does so only for a buffer
  entry whose own key and value pass the predicate: it asks \<open>cond(k, v)\<close> of the entry
  before it looks at the entry's kind, and the value of a delete is nil. With the store
  holding \<open>[1] \<mapsto> [10]\<close> and the key deleted in the buffer, \<open>Filter\<close> under a predicate
  that wants a non-empty value still returns the key with the store's value, while \<open>Get\<close>
  on the same wrapper reports the key as not found; under the predicate that accepts
  everything the same \<open>Filter\<close> returns nothing.
\<close>

theorem Filter_keeps_store_hit_deleted_in_buffer:
  "ex_deleted_kvb = \<lparr>store = [((''ns'', [1]), [10])],
                      buffer = [\<lparr>writeType = batch_Delete, namespace = ''ns'', key = [1],
                                 val = [], errorMessage = ''failed to delete %x in %s''\<rparr>]\<rparr>
   \<and> KVStore_Filter memKV (store ex_deleted_kvb) ''ns'' ex_nonempty_value [] [] =
       ([[1]], [[10]], None)
   \<and> kvStoreWithBuffer_Filter memKV ex_deleted_kvb ''ns'' ex_nonempty_value [] [] =
       Some ([[1]], [[10]], None)
   \<and> kvStoreWithBuffer_Get memKV ex_deleted_kvb ''ns'' [1] =
       ([], Some (Wrap db_ErrNotExist ''failed to get key %x in %s, deleted in buffer level''))
   \<and> kvStoreWithBuffer_Filter memKV ex_deleted_kvb ''ns'' ex_any_value [] [] =
       Some ([], [], None)"
proof -
  have w: "ex_deleted_kvb = \<lparr>store = [((''ns'', [1]), [10])],
                      buffer = [\<lparr>writeType = batch_Delete, namespace = ''ns'', key = [1],
                                 val = [], errorMessage = ''failed to delete %x in %s''\<rparr>]\<rparr>"
    by (simp add: ex_deleted_kvb_def kvStoreWithBuffer_Delete_def CachedBatch_Delete_def)
  have s1: "KVStore_Filter memKV (store ex_deleted_kvb) ''ns'' ex_nonempty_value [] [] =
       ([[1]], [[10]], None)"
    by (simp add: w memKV_def mem_within_def ex_nonempty_value_def)
  have s2: "KVStore_Filter memKV (store ex_deleted_kvb) ''ns'' ex_any_value [] [] =
       ([[1]], [[10]], None)"
    by (simp add: w memKV_def mem_within_def ex_any_value_def)
  have f1: "kvStoreWithBuffer_Filter memKV ex_deleted_kvb ''ns'' ex_nonempty_value [] [] =
       Some ([[1]], [[10]], None)"
    unfolding kvStoreWithBuffer_Filter_def s1
    by (simp add: w Filter_loop.simps CachedBatch_Size_def CachedBatch_Entry_def
        Filter_entry_def ex_nonempty_value_def)
  have f2: "kvStoreWithBuffer_Filter memKV ex_deleted_kvb ''ns'' ex_any_value [] [] =
       Some ([], [], None)"
    unfolding kvStoreWithBuffer_Filter_def s2
    by (simp add: w Filter_loop.simps CachedBatch_Size_def CachedBatch_Entry_def
        Filter_entry_def removeKey.simps ex_any_value_def)
  have g: "kvStoreWithBuffer_Get memKV ex_deleted_kvb ''ns'' [1] =
       ([], Some (Wrap db_ErrNotExist ''failed to get key %x in %s, deleted in buffer level''))"
    by (simp add: w kvStoreWithBuffer_Get_def CachedBatch_Get_def CachedBatch_latest_def
        Cause_of_def)
  from w s1 f1 g f2 show ?thesis by simp
qed

text \<open>
  Claim C7. \<open>Flush\<close> writes the buffered batch to the store first and clears the buffer
  only when the write succeeded. When \<open>WriteBatch\<close> reports an error, \<open>Flush\<close> returns that
  error and the buffer is exactly what it was; when it reports none, \<open>Flush\<close> returns nil
  and the buffer is empty. In both cases the store is the one \<open>WriteBatch\<close> left behind.
\<close>

theorem Flush_clears_only_after_write:
  "(\<forall>err st. KVStore_WriteBatch K (store (kvb f)) (Translate (buffer (kvb f)) (flushTranslate f))
               = (Some err, st) \<longrightarrow>
       fst (flusher_Flush K Translate f) = Some err
       \<and> buffer (kvb (snd (flusher_Flush K Translate f))) = buffer (kvb f)
       \<and> store (kvb (snd (flusher_Flush K Translate f))) = st)
   \<and> (\<forall>st. KVStore_WriteBatch K (store (kvb f)) (Translate (buffer (kvb f)) (flushTranslate f))
               = (None, st) \<longrightarrow>
       fst (flusher_Flush K Translate f) = None
       \<and> buffer (kvb (snd (flusher_Flush K Translate f))) = []
       \<and> CachedBatch_Size (buffer (kvb (snd (flusher_Flush K Translate f)))) = 0
       \<and> store (kvb (snd (flusher_Flush K Translate f))) = st)"
  by (simp add: flusher_Flush_def CachedBatch_ClearAndUnlock_def CachedBatch_Size_def)

theorem Flush_clears_only_after_write_witness:
  "KVStore_WriteBatch brokenKV (store (kvb ex_flusher))
       (Translate_id (buffer (kvb ex_flusher)) (flushTranslate ex_flusher))
     = (Some (New ''write failed''), ex_store)
   \<and> fst (flusher_Flush brokenKV Translate_id ex_flusher) = Some (New ''write failed'')
   \<and> buffer (kvb (snd (flusher_Flush brokenKV Translate_id ex_flusher))) = buffer ex_kvb
   \<and> KVStore_WriteBatch memKV (store (kvb ex_flusher))
       (Translate_id (buffer (kvb ex_flusher)) (flushTranslate ex_flusher))
     = (None, [((''ns'', [3]), [30]), ((''ns'', [1]), [10])])
   \<and> fst (flusher_Flush memKV Translate_id ex_flusher) = None
   \<and> buffer (kvb (snd (flusher_Flush memKV Translate_id ex_flusher))) = []
   \<and> store (kvb (snd (flusher_Flush memKV Translate_id ex_flusher))) =
       [((''ns'', [3]), [30]), ((''ns'', [1]), [10])]"
proof -
  have w1: "KVStore_WriteBatch brokenKV (store (kvb ex_flusher))
       (Translate_id (buffer (kvb ex_flusher)) (flushTranslate ex_flusher))
     = (Some (New ''write failed''), ex_store)"
    by (simp add: brokenKV_def ex_flusher_def ex_kvb_def)
  have w2: "KVStore_WriteBatch memKV (store (kvb ex_flusher))
       (Translate_id (buffer (kvb ex_flusher)) (flushTranslate ex_flusher))
     = (None, [((''ns'', [3]), [30]), ((''ns'', [1]), [10])])"
    by (simp add: memKV_def ex_flusher_def ex_kvb_def ex_store_def Translate_id_def mem_write_def)
  have b: "buffer (kvb ex_flusher) = buffer ex_kvb"
    by (simp add: ex_flusher_def)
  have f1: "fst (flusher_Flush brokenKV Translate_id ex_flusher) = Some (New ''write failed'')
      \<and> buffer (kvb (snd (flusher_Flush brokenKV Translate_id ex_flusher))) = buffer (kvb ex_flusher)"
    using Flush_clears_only_after_write [of brokenKV ex_flusher Translate_id] w1 by blast
  have f2: "fst (flusher_Flush memKV Translate_id ex_flusher) = None
      \<and> buffer (kvb (snd (flusher_Flush memKV Translate_id ex_flusher))) = []
      \<and> store (kvb (snd (flusher_Flush memKV Translate_id ex_flusher))) =
           [((''ns'', [3]), [30]), ((''ns'', [1]), [10])]"
    using Flush_clears_only_after_write [of memKV ex_flusher Translate_id] w2 by blast
  from w1 w2 f1 f2 b show ?thesis by simp
qed

text \<open>
  Claim C10. The buffered \<open>Put\<close> and \<open>Delete\<close> always return nil; they leave the store
  alone and append one entry to the buffer, and the wrapper they return is the one
  \<open>MustPut\<close> and \<open>MustDelete\<close> produce.
\<close>

theorem Put_Delete_only_append:
  "kvStoreWithBuffer_Put w ns k v = (None, kvStoreWithBuffer_MustPut w ns k v)
   \<and> kvStoreWithBuffer_Delete w ns k = (None, kvStoreWithBuffer_MustDelete w ns k)
   \<and> store (kvStoreWithBuffer_MustPut w ns k v) = store w
   \<and> store (kvStoreWithBuffer_MustDelete w ns k) = store w
   \<and> buffer (kvStoreWithBuffer_MustPut w ns k v) =
       buffer w @ [\<lparr>writeType = batch_Put, namespace = ns, key = k, val = v,
                    errorMessage = ''failed to put %x in %s''\<rparr>]
   \<and> buffer (kvStoreWithBuffer_MustDelete w ns k) =
       buffer w @ [\<lparr>writeType = batch_Delete, namespace = ns, key = k, val = [],
                    errorMessage = ''failed to delete %x in %s''\<rparr>]"
  by (simp add: kvStoreWithBuffer_Put_def kvStoreWithBuffer_MustPut_def
      kvStoreWithBuffer_Delete_def kvStoreWithBuffer_MustDelete_def
      CachedBatch_Put_def CachedBatch_Delete_def)

section \<open>The contract staking indexer: proofs\<close>




text \<open>
  Claim C4. \<open>PutBlock\<close> is gated by the expected height, the larger of the cache height
  plus one and the configured start height (the sum taken on 64 bits, as the code takes
  it). A block below the expected height returns nil and leaves the indexer, cache and
  store, as it was; a block above it returns the error \<open>invalid block height\<close> and leaves
  the indexer as it was; a block at the expected height, and only such a block, is handed
  to the event handler and committed.
\<close>

theorem PutBlock_gated_by_expected_height:
  "(blk_Height blk < spec_expectHeight C s \<longrightarrow> Indexer_PutBlock C K s blk = (None, s))
   \<and> (spec_expectHeight C s < blk_Height blk \<longrightarrow>
        Indexer_PutBlock C K s blk = (Some (New ''invalid block height %d, expect %d''), s))
   \<and> (blk_Height blk = spec_expectHeight C s \<longrightarrow>
        Indexer_PutBlock C K s blk = Indexer_handleBlock C K s blk)"
  by (auto simp: Indexer_PutBlock_def spec_expectHeight_def Let_def max_def)

theorem PutBlock_gated_by_expected_height_witness:
  "spec_expectHeight toyStaking toyIndexer = 100
   \<and> Indexer_PutBlock toyStaking memKV toyIndexer (toyBlock 50) = (None, toyIndexer)
   \<and> Indexer_PutBlock toyStaking memKV toyIndexer (toyBlock 101) =
        (Some (New ''invalid block height %d, expect %d''), toyIndexer)
   \<and> Indexer_PutBlock toyStaking memKV toyIndexer (toyBlock 100) =
        (None, toyIndexer\<lparr>kvstore := [((''sns'', [1]), [100])], cache := (100, [3, 2])\<rparr>)"
proof -
  have e: "spec_expectHeight toyStaking toyIndexer = 100"
    by (simp add: spec_expectHeight_def toyStaking_def toyIndexer_def)
  have h: "Indexer_handleBlock toyStaking memKV toyIndexer (toyBlock 100) =
        (None, toyIndexer\<lparr>kvstore := [((''sns'', [1]), [100])], cache := (100, [3, 2])\<rparr>)"
    by (simp add: Indexer_handleBlock_def Indexer_commit_def toyStaking_def toyIndexer_def
        toyBlock_def ReceiptStatus_Success_def memKV_def KVStoreBatch_Put_def mem_write_def)
  have b: "blk_Height (toyBlock 50) = 50" "blk_Height (toyBlock 101) = 101"
    "blk_Height (toyBlock 100) = 100"
    by (simp_all add: toyBlock_def)
  show ?thesis
    using PutBlock_gated_by_expected_height [of "toyBlock 50" toyStaking toyIndexer memKV]
      PutBlock_gated_by_expected_height [of "toyBlock 101" toyStaking toyIndexer memKV]
      PutBlock_gated_by_expected_height [of "toyBlock 100" toyStaking toyIndexer memKV]
    by (simp add: e h b)
qed

text \<open>
  Claim C9. For a height strictly below the configured start height
  (\<open>ContractDeployHeight\<close>) every read accessor that takes a height answers without
  consulting the cache and without error: \<open>CandidateVotes\<close> zero, \<open>Buckets\<close>,
  \<open>BucketsByIndices\<close>, \<open>BucketsByCandidate\<close> and \<open>BucketTypes\<close> the empty list, \<open>Bucket\<close>
  no bucket and \<open>false\<close>, \<open>TotalBucketCount\<close> zero. With start height 100, \<open>Buckets(50)\<close>
  is empty with a nil error.
\<close>

theorem accessors_default_before_start_height:
  assumes "height < ContractDeployHeight (config s)"
  shows "Indexer_CandidateVotes C s candidate height = (0, None)
     \<and> Indexer_Buckets C s height = ([], None)
     \<and> Indexer_Bucket C s bid height = (None, False, None)
     \<and> Indexer_BucketsByIndices C s indices height = ([], None)
     \<and> Indexer_BucketsByCandidate C s candidate height = ([], None)
     \<and> Indexer_TotalBucketCount C s height = (0, None)
     \<and> Indexer_BucketTypes C s height = ([], None)"
  using assms
  by (simp add: isIgnored_def Indexer_CandidateVotes_def Indexer_Buckets_def Indexer_Bucket_def
      Indexer_BucketsByIndices_def Indexer_BucketsByCandidate_def Indexer_TotalBucketCount_def
      Indexer_BucketTypes_def)

theorem accessors_default_before_start_height_witness:
  "(50 :: uint64) < ContractDeployHeight (config toyIndexer)
   \<and> ContractDeployHeight (config toyIndexer) = 100
   \<and> cache_Buckets toyStaking (cache toyIndexer) 50 = ([3], None)
   \<and> Indexer_Buckets toyStaking toyIndexer 50 = ([], None)
   \<and> Indexer_CandidateVotes toyStaking toyIndexer ''io1candidate'' 50 = (0, None)
   \<and> Indexer_Bucket toyStaking toyIndexer 7 50 = (None, False, None)
   \<and> Indexer_BucketsByIndices toyStaking toyIndexer [7] 50 = ([], None)
   \<and> Indexer_BucketsByCandidate toyStaking toyIndexer ''io1candidate'' 50 = ([], None)
   \<and> Indexer_TotalBucketCount toyStaking toyIndexer 50 = (0, None)
   \<and> Indexer_BucketTypes toyStaking toyIndexer 50 = ([], None)"
proof -
  have d: "ContractDeployHeight (config toyIndexer) = 100"
    by (simp add: toyIndexer_def)
  have c: "cache_Buckets toyStaking (cache toyIndexer) 50 = ([3], None)"
    by (simp add: toyStaking_def toyIndexer_def)
  have lt: "(50 :: uint64) < ContractDeployHeight (config toyIndexer)"
    by (simp add: d)
  from accessors_default_before_start_height [OF lt, of toyStaking "''io1candidate''" 7 "[7]"]
    d c lt show ?thesis by simp
qed

section \<open>The blockchain: proofs\<close>

lemma Cause_of_Some: "Cause_of (Some e) = Some (Cause e)"
  by (simp add: Cause_of_def)




lemma toy_height:
  "dao_Height toyChain (dao toyBlockchain) = Inr 0"
  "dao_Height toyChain_failPut (dao toyBlockchain) = Inr 0"
  "dao_Height toyChain (dao ex_committed) = Inr 1"
  by (simp_all add: toyChain_failPut_def toyChain_def ex_committed_def toyBlockchain_def)

lemma toy_tipInfo:
  "tipInfo toyChain toyBlockchain 0 = Inr ex_genesis_tip"
  by (simp add: tipInfo_def toyBlockchain_def ex_genesis_tip_def)

lemma toy_context:
  "context toyChain toyBlockchain 0 = Inr ex_genesis_ctx"
  "context toyChain_failPut toyBlockchain 0 = Inr ex_genesis_ctx"
  "context toyChain ex_committed 1 = Inr ex_tip_ctx"
  by (simp_all add: context_def tipInfo_def toyChain_failPut_def toyChain_def ex_committed_def
      toyBlockchain_def ex_genesis_ctx_def ex_genesis_tip_def ex_tip_ctx_def toyHeader_def
      toyBlock_def)









text \<open>
  Claim C8. When the archive's height and the tip derived from it are available, a block
  whose height is neither 0 nor the tip height plus one is rejected by \<open>ValidateBlock\<close>
  with the error \<open>ErrInvalidTipHeight\<close> (wrapped with its message), and the blockchain
  after the call is the blockchain before it. The tip \<open>ValidateBlock\<close> compares with is at
  the archive's height.
\<close>

theorem ValidateBlock_rejects_wrong_height:
  assumes "dao_Height X (dao bc) = Inr tipHeight"
    and "tipInfo X bc tipHeight = Inr tip"
    and "blk_Height blk \<noteq> 0"
    and "blk_Height blk \<noteq> tip_Height tip + 1"
  shows "ValidateBlock X bc (Some blk) opts =
           (Some (Wrap ErrInvalidTipHeight ''wrong block height %d, expecting %d''), bc)
     \<and> Cause_of (fst (ValidateBlock X bc (Some blk) opts)) = Some ErrInvalidTipHeight
     \<and> snd (ValidateBlock X bc (Some blk) opts) = bc
     \<and> TipHeight X (snd (ValidateBlock X bc (Some blk) opts)) = Inr tipHeight
     \<and> tip_Height tip = tipHeight"
proof -
  have v: "ValidateBlock X bc (Some blk) opts =
           (Some (Wrap ErrInvalidTipHeight ''wrong block height %d, expecting %d''), bc)"
    using assms by (simp add: ValidateBlock_def)
  have h: "tip_Height tip = tipHeight"
    using assms(2) by (auto simp: tipInfo_def split: if_splits sum.splits)
  from v h assms(1) show ?thesis
    by (simp add: TipHeight_def Cause_of_Some)
qed

theorem ValidateBlock_rejects_wrong_height_witness:
  "dao_Height toyChain (dao toyBlockchain) = Inr 0
   \<and> tipInfo toyChain toyBlockchain 0 = Inr ex_genesis_tip
   \<and> tip_Height ex_genesis_tip = 0
   \<and> blk_Height (toyBlock 5) = 5
   \<and> ValidateBlock toyChain toyBlockchain (Some (toyBlock 5)) [] =
       (Some (Wrap ErrInvalidTipHeight ''wrong block height %d, expecting %d''), toyBlockchain)
   \<and> ValidateBlock toyChain toyBlockchain (Some (toyBlock 1)) [] = (None, toyBlockchain)"
proof -
  have t: "tip_Height ex_genesis_tip = 0"
    by (simp add: ex_genesis_tip_def)
  have b: "blk_Height (toyBlock 5) = 5"
    by (simp add: toyBlock_def)
  have n0: "blk_Height (toyBlock 5) \<noteq> 0"
    by (simp add: b)
  have n1: "blk_Height (toyBlock 5) \<noteq> tip_Height ex_genesis_tip + 1"
    by (simp add: b t)
  have bv: "blockValidator toyBlockchain = None"
    by (simp add: toyBlockchain_def)
  have good: "ValidateBlock toyChain toyBlockchain (Some (toyBlock 1)) [] = (None, toyBlockchain)"
    by (simp add: ValidateBlock_def toy_height toy_tipInfo toy_context bv toyBlock_def
        ex_genesis_tip_def Let_def)
  from ValidateBlock_rejects_wrong_height [OF toy_height(1) toy_tipInfo n0 n1, of "[]"]
    toy_height(1) toy_tipInfo t b good
  show ?thesis by simp
qed

end
